theory Spec2Isabelle
  imports Main "HOL-Library.Word" "HOL-Library.AList"
begin

section \<open>The asynchronous scheduling condition (asynchronous.cpp)\<close>

text \<open>
  The code of \<open>AsynchronousCondition\<close> is the last part of the source file
  \<^verbatim>\<open>src/include/holoscan/operators/multiai_postprocessor/multiai_postprocessor.hpp\<close>
  (lines 297 to 354, \<open>event_state\<close> at lines 336 to 352).

  Modelled from the spec: the declaration of the enum \<open>AsynchronousEventState\<close> lives in
  the header \<open>holoscan/core/conditions/gxf/asynchronous.hpp\<close>, which is not among the
  sources. The spec (data model, asynchronous event state) names three values.
\<close>

datatype AsynchronousEventState = EVENT_WAITING | EVENT_DONE | EVENT_NEVER

text \<open>
  The two members of \<open>AsynchronousCondition\<close> that \<open>event_state\<close> touches,
  \<^verbatim>\<open>gxf_cptr_\<close> and \<^verbatim>\<open>event_state_\<close>, named here without the trailing underscore.
  \<open>gxf_cptr\<close> is the pointer to the engine's scheduling term: \<open>None\<close> is the null
  pointer, \<open>Some p\<close> the address \<open>p\<close> in the engine's store of scheduling terms.
\<close>

record AsynchronousCondition =
  gxf_cptr :: "nat option"
  event_state :: AsynchronousEventState

text \<open>
  The scheduling term belongs to the external engine (\<open>nvidia::gxf::AsynchronousSchedulingTerm\<close>).
  Its two methods are parameters of the model: \<open>setEventState\<close> maps a state and a term
  to the updated term, \<open>getEventState\<close> reads a term. The engine's terms are a store
  from addresses to terms, passed through every call next to the condition itself.

  The C++ overloads \<open>event_state(state)\<close> and \<open>event_state()\<close> get two names here.
\<close>

definition event_state_set ::
  "(AsynchronousEventState \<Rightarrow> 't \<Rightarrow> 't) \<Rightarrow> AsynchronousEventState \<Rightarrow>
   AsynchronousCondition \<times> (nat \<Rightarrow> 't) \<Rightarrow> AsynchronousCondition \<times> (nat \<Rightarrow> 't)" where
  "event_state_set setEventState state \<sigma> =
     (case \<sigma> of (c, terms) \<Rightarrow>
        (case gxf_cptr c of
           Some p \<Rightarrow> (c\<lparr>event_state := state\<rparr>, terms(p := setEventState state (terms p)))
         | None \<Rightarrow> (c\<lparr>event_state := state\<rparr>, terms)))"

definition event_state_get ::
  "('t \<Rightarrow> AsynchronousEventState) \<Rightarrow> AsynchronousCondition \<times> (nat \<Rightarrow> 't) \<Rightarrow>
   AsynchronousEventState" where
  "event_state_get getEventState \<sigma> =
     (case \<sigma> of (c, terms) \<Rightarrow>
        (case gxf_cptr c of
           Some p \<Rightarrow> getEventState (terms p)
         | None \<Rightarrow> event_state c))"

text \<open>
  A sequence of writes, and the states a reader observes: before the first write and
  after each one.
\<close>

fun observed_states ::
  "(AsynchronousEventState \<Rightarrow> 't \<Rightarrow> 't) \<Rightarrow> ('t \<Rightarrow> AsynchronousEventState) \<Rightarrow>
   AsynchronousEventState list \<Rightarrow> AsynchronousCondition \<times> (nat \<Rightarrow> 't) \<Rightarrow>
   AsynchronousEventState list" where
  "observed_states setEventState getEventState [] \<sigma> = [event_state_get getEventState \<sigma>]"
| "observed_states setEventState getEventState (w # ws) \<sigma> =
     event_state_get getEventState \<sigma> #
     observed_states setEventState getEventState ws (event_state_set setEventState w \<sigma>)"

text \<open>
  The transitions the spec allows, in the spec's words: WAITING to DONE, DONE to WAITING,
  and any state to NEVER. A trace of observed states follows them when every change of
  state between two consecutive observations is one of these.
\<close>

definition spec_transition :: "AsynchronousEventState \<Rightarrow> AsynchronousEventState \<Rightarrow> bool" where
  "spec_transition a b =
     (a = EVENT_WAITING \<and> b = EVENT_DONE \<or>
      a = EVENT_DONE \<and> b = EVENT_WAITING \<or>
      b = EVENT_NEVER)"

fun follows_spec_transitions :: "AsynchronousEventState list \<Rightarrow> bool" where
  "follows_spec_transitions (a # b # rest) =
     ((a = b \<or> spec_transition a b) \<and> follows_spec_transitions (b # rest))"
| "follows_spec_transitions _ = True"

text \<open>
  Concrete scheduling terms for the examples: a term that is just the cell holding its
  event state, and a store in which every term waits.
\<close>

definition cell_setEventState :: "AsynchronousEventState \<Rightarrow> AsynchronousEventState \<Rightarrow> AsynchronousEventState" where
  "cell_setEventState state term = state"

definition cell_getEventState :: "AsynchronousEventState \<Rightarrow> AsynchronousEventState" where
  "cell_getEventState term = term"

definition waiting_terms :: "nat \<Rightarrow> AsynchronousEventState" where
  "waiting_terms p = EVENT_WAITING"


definition never_terms :: "nat \<Rightarrow> AsynchronousEventState" where
  "never_terms p = EVENT_NEVER"

definition unbound_condition :: "AsynchronousEventState \<Rightarrow> AsynchronousCondition" where
  "unbound_condition s = \<lparr>gxf_cptr = None, event_state = s\<rparr>"

definition bound_condition :: "nat \<Rightarrow> AsynchronousEventState \<Rightarrow> AsynchronousCondition" where
  "bound_condition p s = \<lparr>gxf_cptr = Some p, event_state = s\<rparr>"

section \<open>The Python bindings (gxf.cpp)\<close>

text \<open>
  A Python call either returns a value or raises: \<open>Inl\<close> carries the exception,
  \<open>Inr\<close> the value.
\<close>

datatype error = value_error string | runtime_error string

text \<open>
  Python objects as far as the bindings tell them apart: \<open>None\<close>, a \<open>PyTensor\<close>
  wrapping a tensor, and any other object. The tensor type itself is a parameter. The
  array-interface and DLPack attributes that \<open>py_get\<close> sets on the object it returns are
  computed from the tensor's own \<open>dl_ctx()\<close>, so \<open>PyTensor t\<close> stands for the object
  together with them.
\<close>

datatype 't py_object = py_none | PyTensor 't | py_other string

subsection \<open>load_extensions\<close>

text \<open>
  \<open>gxf_result_t\<close> is a C enum in which \<open>GXF_SUCCESS\<close> is 0 (the note in gxf.cpp).
\<close>

type_synonym gxf_result_t = int

definition GXF_SUCCESS :: gxf_result_t where
  "GXF_SUCCESS = 0"

text \<open>
  \<open>GxfLoadExtensionsInfo\<close> as the binding fills it: a null pointer (\<open>None\<close>) for an
  empty vector of names, the vector's data otherwise, and the sizes cast to 32 bits.
\<close>

record GxfLoadExtensionsInfo =
  extension_filenames :: "string list option"
  extension_filenames_count :: "32 word"
  manifest_filenames :: "string list option"
  manifest_filenames_count :: "32 word"
  base_directory :: string

definition load_extensions_info :: "string list \<Rightarrow> string list \<Rightarrow> string \<Rightarrow> GxfLoadExtensionsInfo" where
  "load_extensions_info extension_filenames_cstr manifest_filenames_cstr base =
     \<lparr>extension_filenames =
        (if extension_filenames_cstr = [] then None else Some extension_filenames_cstr),
      extension_filenames_count = of_nat (length extension_filenames_cstr),
      manifest_filenames =
        (if manifest_filenames_cstr = [] then None else Some manifest_filenames_cstr),
      manifest_filenames_count = of_nat (length manifest_filenames_cstr),
      base_directory = base\<rparr>"

text \<open>
  \<open>GxfLoadExtensions\<close> and \<open>GxfResultStr\<close> are functions of the external engine and
  parameters of the model. The context is the 64-bit integer the caller passes,
  reinterpreted as the engine's context handle.
\<close>

definition load_extensions ::
  "(64 word \<Rightarrow> GxfLoadExtensionsInfo \<Rightarrow> gxf_result_t) \<Rightarrow> (gxf_result_t \<Rightarrow> string) \<Rightarrow>
   64 word \<Rightarrow> string list \<Rightarrow> string list \<Rightarrow> string \<Rightarrow> error + unit" where
  "load_extensions GxfLoadExtensions GxfResultStr context extension_names manifest_names base =
     (let info = load_extensions_info extension_names manifest_names base;
          result = GxfLoadExtensions context info
      in if result \<noteq> GXF_SUCCESS then Inl (value_error (GxfResultStr result)) else Inr ())"

text \<open>An engine for the examples: it refuses to load when no extension is named.\<close>

definition example_GxfLoadExtensions :: "64 word \<Rightarrow> GxfLoadExtensionsInfo \<Rightarrow> gxf_result_t" where
  "example_GxfLoadExtensions context info =
     (if extension_filenames info = None then 1 else GXF_SUCCESS)"

definition example_GxfResultStr :: "gxf_result_t \<Rightarrow> string" where
  "example_GxfResultStr result = (if result = 0 then ''GXF_SUCCESS'' else ''GXF_FAILURE'')"

subsection \<open>PyEntity\<close>

text \<open>
  Modelled from the spec: \<open>gxf::Entity\<close> and its members \<open>get<Tensor>\<close> and
  \<open>add<Tensor>\<close> (holoscan/core/gxf/entity.hpp) are not among the sources. The spec
  describes an Entity as an ordered-insertion, name-keyed set of typed sub-objects
  (tensors among others): \<open>get(name)\<close> returns the named sub-object or an empty result
  when it is absent and never raises; \<open>add(object, name)\<close> inserts the object under the
  name and overwrites a prior binding of that name.
\<close>

datatype 't Component = TensorComponent 't | OtherComponent nat

type_synonym 't Entity = "(string \<times> 't Component) list"

definition Entity_get :: "'t Entity \<Rightarrow> string \<Rightarrow> 't option" where
  "Entity_get e name =
     (case map_of e name of
        Some (TensorComponent t) \<Rightarrow> Some t
      | _ \<Rightarrow> None)"

definition Entity_add :: "'t \<Rightarrow> string \<Rightarrow> 't Entity \<Rightarrow> 't Entity" where
  "Entity_add t name e = AList.update name (TensorComponent t) e"

text \<open>
  \<open>PyEntity::py_create\<close>: the engine's \<open>Entity::New\<close> is a parameter; it yields no
  entity when it fails.
\<close>

definition py_create :: "('c \<Rightarrow> 't Entity option) \<Rightarrow> 'c \<Rightarrow> error + 't Entity" where
  "py_create Entity_New ctx =
     (case Entity_New ctx of
        None \<Rightarrow> Inl (runtime_error ''Failed to create entity'')
      | Some result \<Rightarrow> Inr result)"

definition py_get :: "'t Entity \<Rightarrow> string \<Rightarrow> error + 't py_object" where
  "py_get e name =
     (case Entity_get e name of
        None \<Rightarrow> Inr py_none
      | Some tensor \<Rightarrow> Inr (PyTensor tensor))"

text \<open>
  \<open>py_add\<close> mutates the entity: the model returns the returned object and the entity.
  The test \<^verbatim>\<open>py::isinstance<PyTensor>(value)\<close> is the match on the constructor.
\<close>

definition py_add :: "'t py_object \<Rightarrow> string \<Rightarrow> 't Entity \<Rightarrow> error + ('t py_object \<times> 't Entity)" where
  "py_add obj name e =
     (case obj of
        PyTensor tensor \<Rightarrow> Inr (obj, Entity_add tensor name e)
      | _ \<Rightarrow> Inr (py_none, e))"

definition example_entity :: "nat Entity" where
  "example_entity = [(''mask'', TensorComponent 3), (''clock'', OtherComponent 0)]"

subsection \<open>GXFInputContext.receive and GXFOutputContext.emit\<close>

text \<open>
  Modelled from the spec: the classes \<open>InputContext\<close> and \<open>OutputContext\<close>
  (holoscan/core/io_context.hpp) are not among the sources. The spec describes them by
  their ports: an input port queues the messages that arrived, an output port holds the
  messages handed to it for delivery.
\<close>

record 't InputContext =
  queued :: "string \<Rightarrow> 't py_object list"

record 't OutputContext =
  emitted :: "string \<Rightarrow> 't py_object list"

text \<open>The two bindings as gxf.cpp defines them: lambdas that ignore their arguments.\<close>

definition receive :: "'t InputContext \<Rightarrow> string \<Rightarrow> error + 't py_object" where
  "receive ctx name = Inr py_none"

definition emit :: "'t OutputContext \<Rightarrow> 't py_object \<Rightarrow> string \<Rightarrow> error + 't OutputContext" where
  "emit ctx data name = Inr ctx"

text \<open>
  What the spec says of the two operations, in its words: \<open>receive\<close> returns the next
  queued message of the port or an empty result; \<open>emit\<close> hands the value to the named
  port.
\<close>

definition receive_spec :: "'t InputContext \<Rightarrow> string \<Rightarrow> 't py_object" where
  "receive_spec ctx name = (case queued ctx name of [] \<Rightarrow> py_none | m # _ \<Rightarrow> m)"

definition emit_spec :: "'t OutputContext \<Rightarrow> 't py_object \<Rightarrow> string \<Rightarrow> 't OutputContext" where
  "emit_spec ctx data name = ctx\<lparr>emitted := (emitted ctx)(name := emitted ctx name @ [data])\<rparr>"

text \<open>A value is observable on an output port when the port holds it after the call.\<close>

definition port_holds :: "error + 't OutputContext \<Rightarrow> string \<Rightarrow> 't py_object \<Rightarrow> bool" where
  "port_holds result name data =
     (case result of Inl _ \<Rightarrow> False | Inr ctx \<Rightarrow> data \<in> set (emitted ctx name))"

definition example_input :: "nat InputContext" where
  "example_input = \<lparr>queued = (\<lambda>port. if port = ''in'' then [PyTensor 7] else [])\<rparr>"

definition example_output :: "nat OutputContext" where
  "example_output = \<lparr>emitted = (\<lambda>port. [])\<rparr>"

subsection \<open>GXFExtensionRegistrar\<close>

text \<open>
  A type identifier is two 64-bit words; \<open>default_tid\<close> is the constant of gxf.cpp,
  and \<open>TypeKind\<close> the enum the module exports.
\<close>

type_synonym gxf_tid_t = "64 word \<times> 64 word"

definition default_tid :: gxf_tid_t where
  "default_tid = (0, 0)"

datatype TypeKind = kExtension | kComponent

text \<open>
  Modelled from the spec: the class \<open>gxf::GXFExtensionRegistrar\<close>
  (holoscan/core/gxf/gxf_extension_registrar.hpp) is not among the sources; gxf.cpp only
  binds its members. After the spec, the registrar records the type ids it allocated,
  each with its kind, and the types bound to a (description, tid) pair.
  \<open>create_random_tid\<close> yields an id that collides with none of the session and
  rejects the reserved all-zero id; \<open>allocate_tid\<close> allocates a fresh id for a kind
  and records it; \<open>add_component\<close> and \<open>add_type\<close> bind a wrapped codelet or a
  wrapped tensor-like type to a (description, tid) pair, generate a fresh id when the
  tid is the reserved default, and reject a colliding id.

  The random device is an input of the model: the list of the ids it draws, in order.
  A draw that is rejected is followed by the next one; \<open>None\<close> says that the draws
  ran out before an id was accepted.
\<close>

datatype WrappedType = WrappedCodelet | WrappedMessage

record GXFExtensionRegistrar =
  allocated_tids :: "(gxf_tid_t \<times> TypeKind) list"
  type_table :: "(gxf_tid_t \<times> string \<times> WrappedType) list"

datatype registrar_error = id_collision

definition is_allocated :: "GXFExtensionRegistrar \<Rightarrow> gxf_tid_t \<Rightarrow> TypeKind \<Rightarrow> bool" where
  "is_allocated r tid kind = ((tid, kind) \<in> set (allocated_tids r))"

definition collides :: "GXFExtensionRegistrar \<Rightarrow> gxf_tid_t \<Rightarrow> bool" where
  "collides r tid = (is_allocated r tid kExtension \<or> is_allocated r tid kComponent)"

fun create_random_tid ::
  "GXFExtensionRegistrar \<Rightarrow> gxf_tid_t list \<Rightarrow> (gxf_tid_t \<times> gxf_tid_t list) option" where
  "create_random_tid r [] = None"
| "create_random_tid r (tid # draws) =
     (if tid = default_tid \<or> collides r tid then create_random_tid r draws
      else Some (tid, draws))"

definition allocate_tid ::
  "TypeKind \<Rightarrow> GXFExtensionRegistrar \<Rightarrow> gxf_tid_t list \<Rightarrow>
   (gxf_tid_t \<times> GXFExtensionRegistrar \<times> gxf_tid_t list) option" where
  "allocate_tid kind r draws =
     (case create_random_tid r draws of
        None \<Rightarrow> None
      | Some (tid, rest) \<Rightarrow>
          Some (tid, r\<lparr>allocated_tids := allocated_tids r @ [(tid, kind)]\<rparr>, rest))"

definition bind_type ::
  "WrappedType \<Rightarrow> string \<Rightarrow> gxf_tid_t \<Rightarrow> GXFExtensionRegistrar \<Rightarrow> gxf_tid_t list \<Rightarrow>
   (registrar_error + GXFExtensionRegistrar \<times> gxf_tid_t list) option" where
  "bind_type wrapped description tid r draws =
     (if tid = default_tid then
        (case allocate_tid kComponent r draws of
           None \<Rightarrow> None
         | Some (fresh, r', rest) \<Rightarrow>
             Some (Inr (r'\<lparr>type_table := type_table r' @ [(fresh, description, wrapped)]\<rparr>, rest)))
      else if collides r tid then Some (Inl id_collision)
      else Some (Inr (r\<lparr>allocated_tids := allocated_tids r @ [(tid, kComponent)],
                        type_table := type_table r @ [(tid, description, wrapped)]\<rparr>, draws)))"

definition add_component ::
  "string \<Rightarrow> gxf_tid_t \<Rightarrow> GXFExtensionRegistrar \<Rightarrow> gxf_tid_t list \<Rightarrow>
   (registrar_error + GXFExtensionRegistrar \<times> gxf_tid_t list) option" where
  "add_component = bind_type WrappedCodelet"

definition add_type ::
  "string \<Rightarrow> gxf_tid_t \<Rightarrow> GXFExtensionRegistrar \<Rightarrow> gxf_tid_t list \<Rightarrow>
   (registrar_error + GXFExtensionRegistrar \<times> gxf_tid_t list) option" where
  "add_type = bind_type WrappedMessage"

text \<open>
  The two bindings of gxf.cpp: both arguments are optional at the Python interface, the
  description defaulting to the empty string and the tid to \<open>default_tid\<close>.
\<close>

definition py_add_component ::
  "string option \<Rightarrow> gxf_tid_t option \<Rightarrow> GXFExtensionRegistrar \<Rightarrow> gxf_tid_t list \<Rightarrow>
   (registrar_error + GXFExtensionRegistrar \<times> gxf_tid_t list) option" where
  "py_add_component description tid r draws =
     add_component (case description of None \<Rightarrow> [] | Some d \<Rightarrow> d)
                   (case tid of None \<Rightarrow> default_tid | Some t \<Rightarrow> t) r draws"

definition py_add_type ::
  "string option \<Rightarrow> gxf_tid_t option \<Rightarrow> GXFExtensionRegistrar \<Rightarrow> gxf_tid_t list \<Rightarrow>
   (registrar_error + GXFExtensionRegistrar \<times> gxf_tid_t list) option" where
  "py_add_type description tid r draws =
     add_type (case description of None \<Rightarrow> [] | Some d \<Rightarrow> d)
              (case tid of None \<Rightarrow> default_tid | Some t \<Rightarrow> t) r draws"

definition example_registrar :: GXFExtensionRegistrar where
  "example_registrar = \<lparr>allocated_tids = [((5, 7), kExtension)], type_table = []\<rparr>"

definition example_draws :: "gxf_tid_t list" where
  "example_draws = [(0, 0), (5, 7), (8, 9)]"

section \<open>Properties of the asynchronous scheduling condition\<close>

lemma event_state_set_keeps_cptr:
  "gxf_cptr (fst (event_state_set S s (c, terms))) = gxf_cptr c"
  by (cases "gxf_cptr c") (simp_all add: event_state_set_def)

lemma event_state_get_after_set:
  assumes "gxf_cptr c = None \<or> (\<forall>state term. G (S state term) = state)"
  shows "event_state_get G (event_state_set S s (c, terms)) = s"
proof (cases "gxf_cptr c")
  case None
  then show ?thesis by (simp add: event_state_set_def event_state_get_def)
next
  case (Some p)
  with assms have "G (S s (terms p)) = s" by simp
  with Some show ?thesis by (simp add: event_state_set_def event_state_get_def)
qed

lemma observed_states_writes:
  assumes "gxf_cptr c = None \<or> (\<forall>state term. G (S state term) = state)"
  shows "observed_states S G ws (c, terms) = event_state_get G (c, terms) # ws"
  using assms
proof (induction ws arbitrary: c terms)
  case Nil
  then show ?case by simp
next
  case (Cons w ws)
  obtain c' terms' where step: "event_state_set S w (c, terms) = (c', terms')"
    by (cases "event_state_set S w (c, terms)")
  have "gxf_cptr c' = gxf_cptr c"
    using event_state_set_keeps_cptr [of S w c terms] step by simp
  with Cons.prems have "gxf_cptr c' = None \<or> (\<forall>state term. G (S state term) = state)"
    by simp
  then have "observed_states S G ws (c', terms') = event_state_get G (c', terms') # ws"
    by (rule Cons.IH)
  moreover have "event_state_get G (c', terms') = w"
    using event_state_get_after_set [OF Cons.prems, of w terms] step by simp
  ultimately show ?case using step by simp
qed

text \<open>
  Claim C1. On a condition whose scheduling-term pointer is null, writing the event
  state stores it in the condition's own field and leaves the engine's store of
  scheduling terms as it was (nothing is forwarded), and reading returns the field:
  the value just written after a write, the held value in general. Both calls return
  normally, whatever the engine's term methods are.
\<close>

theorem event_state_unbound_is_local:
  "gxf_cptr c = None \<Longrightarrow>
   event_state_set S state (c, terms) = (c\<lparr>event_state := state\<rparr>, terms) \<and>
   event_state_get G (c\<lparr>event_state := state\<rparr>, terms) = state \<and>
   event_state_get G (c, terms) = event_state c"
  by (simp add: event_state_set_def event_state_get_def)

theorem event_state_unbound_is_local_witness:
  "gxf_cptr (unbound_condition EVENT_WAITING) = None \<and>
   event_state_set cell_setEventState EVENT_DONE (unbound_condition EVENT_WAITING, waiting_terms) =
     (unbound_condition EVENT_DONE, waiting_terms) \<and>
   event_state_get cell_getEventState (unbound_condition EVENT_DONE, waiting_terms) = EVENT_DONE"
  using event_state_unbound_is_local
    [of "unbound_condition EVENT_WAITING" cell_setEventState EVENT_DONE waiting_terms
        cell_getEventState]
  by (simp add: unbound_condition_def)

text \<open>
  Claim C8 as stated fails: the setter checks nothing. On an unbound condition that
  waits, the writes NEVER and then DONE are both taken, and the reader sees the state go
  from NEVER to DONE, which is none of the transitions the spec allows.
\<close>

theorem event_state_never_to_done_counterexample:
  "\<not> follows_spec_transitions
       (observed_states cell_setEventState cell_getEventState [EVENT_NEVER, EVENT_DONE]
          (unbound_condition EVENT_WAITING, waiting_terms))"
  by (simp add: unbound_condition_def event_state_set_def event_state_get_def
      spec_transition_def)

text \<open>
  Claim C8, amended. No write is rejected, whatever the state before it. The setter
  assigns the local field unconditionally, and when a scheduling term is bound it
  forwards the state to that term, with no look at the current state; an unbound
  condition leaves the engine's store as it was. For every sequence of writes, on a
  condition that is unbound, or bound to a scheduling term that reports the state last
  set on it, the state observed after each write is the state written: the observations
  are the state before the first write followed by the writes themselves, so a
  transition out of EVENT_NEVER is taken like any other.
\<close>

theorem event_state_writes_are_unchecked:
  "event_state_set S s (c, terms) =
     (c\<lparr>event_state := s\<rparr>,
      case gxf_cptr c of None \<Rightarrow> terms | Some p \<Rightarrow> terms(p := S s (terms p))) \<and>
   event_state (fst (event_state_set S s (c, terms))) = s \<and>
   (gxf_cptr c = None \<or> (\<forall>state term. G (S state term) = state) \<longrightarrow>
      observed_states S G ws (c, terms) = event_state_get G (c, terms) # ws)"
proof (intro conjI impI)
  show written: "event_state_set S s (c, terms) =
     (c\<lparr>event_state := s\<rparr>,
      case gxf_cptr c of None \<Rightarrow> terms | Some p \<Rightarrow> terms(p := S s (terms p)))"
    by (cases "gxf_cptr c") (simp_all add: event_state_set_def)
  show "event_state (fst (event_state_set S s (c, terms))) = s"
    by (simp add: written)
next
  assume "gxf_cptr c = None \<or> (\<forall>state term. G (S state term) = state)"
  then show "observed_states S G ws (c, terms) = event_state_get G (c, terms) # ws"
    by (rule observed_states_writes)
qed

theorem event_state_writes_are_unchecked_witness:
  "event_state_set cell_setEventState EVENT_DONE (bound_condition 2 EVENT_NEVER, never_terms) =
     (bound_condition 2 EVENT_DONE, never_terms(2 := EVENT_DONE)) \<and>
   observed_states cell_setEventState cell_getEventState [EVENT_NEVER, EVENT_DONE]
     (bound_condition 2 EVENT_WAITING, waiting_terms) =
   [EVENT_WAITING, EVENT_NEVER, EVENT_DONE]"
  using event_state_writes_are_unchecked
    [of cell_setEventState EVENT_DONE "bound_condition 2 EVENT_NEVER" never_terms
        cell_getEventState "[]"]
    event_state_writes_are_unchecked
    [of cell_setEventState EVENT_DONE "bound_condition 2 EVENT_WAITING" waiting_terms
        cell_getEventState "[EVENT_NEVER, EVENT_DONE]"]
  by (simp add: bound_condition_def cell_getEventState_def cell_setEventState_def
      event_state_get_def waiting_terms_def never_terms_def)




section \<open>Properties of the Python bindings\<close>

subsection \<open>Entity\<close>

lemma Entity_get_absent:
  "name \<notin> fst ` set e \<Longrightarrow> Entity_get e name = None"
proof -
  assume "name \<notin> fst ` set e"
  then have "map_of e name = None" by (simp add: map_of_eq_None_iff)
  then show ?thesis by (simp add: Entity_get_def)
qed

lemma Entity_get_add:
  "Entity_get (Entity_add t name e) name = Some t"
  by (simp add: Entity_get_def Entity_add_def AList.update_conv')

lemma Entity_add_overwrites:
  "Entity_add t' name (Entity_add t name e) = Entity_add t' name e"
  by (simp add: Entity_add_def)

text \<open>
  Claim C2. For a name that the entity binds to nothing, \<open>py_get\<close> returns \<open>None\<close>
  and raises nothing.
\<close>

theorem py_get_missing_name_returns_none:
  "name \<notin> fst ` set e \<Longrightarrow> py_get e name = Inr py_none"
  by (simp add: py_get_def Entity_get_absent)

theorem py_get_missing_name_returns_none_witness:
  "''depth'' \<notin> fst ` set example_entity \<and> py_get example_entity ''depth'' = Inr py_none"
proof -
  have absent: "''depth'' \<notin> fst ` set example_entity"
    by (simp add: example_entity_def)
  show ?thesis
    using absent py_get_missing_name_returns_none [OF absent] by simp
qed

text \<open>
  Claim C3. Adding a tensor under a name and then getting that name returns the tensor
  just added; adding again under the same name overwrites the binding, so the entity is
  the one a single insertion of the last tensor gives, and a get returns the last tensor.
\<close>

theorem py_add_then_py_get_returns_added:
  "py_add (PyTensor t) name e = Inr (PyTensor t, Entity_add t name e) \<and>
   py_get (Entity_add t name e) name = Inr (PyTensor t) \<and>
   Entity_add t' name (Entity_add t name e) = Entity_add t' name e \<and>
   py_get (Entity_add t' name (Entity_add t name e)) name = Inr (PyTensor t')"
  by (simp add: py_add_def py_get_def Entity_get_add Entity_add_overwrites)

text \<open>
  Claim C10. \<open>py_add\<close> inserts tensors only: for an object that is no \<open>PyTensor\<close> it
  leaves the entity as it is and returns \<open>None\<close>; for a \<open>PyTensor\<close> it inserts the
  tensor and returns the object itself. \<open>py_get\<close> returns \<open>None\<close> or a tensor object,
  nothing else.
\<close>

theorem py_add_inserts_only_tensors:
  "((\<forall>t. obj \<noteq> PyTensor t) \<longrightarrow> py_add obj name e = Inr (py_none, e)) \<and>
   py_add (PyTensor t) name e = Inr (PyTensor t, Entity_add t name e) \<and>
   (py_get e name = Inr py_none \<or> (\<exists>t. py_get e name = Inr (PyTensor t)))"
  by (cases obj) (simp_all add: py_add_def py_get_def split: option.splits)

theorem py_add_inserts_only_tensors_witness:
  "py_add (py_other ''text'') ''mask'' example_entity = Inr (py_none, example_entity) \<and>
   py_add (PyTensor 4) ''mask'' example_entity =
     Inr (PyTensor 4, Entity_add 4 ''mask'' example_entity) \<and>
   py_get example_entity ''clock'' = Inr py_none \<and>
   py_get example_entity ''mask'' = Inr (PyTensor 3)"
  using py_add_inserts_only_tensors [of "py_other ''text''" "''mask''" example_entity 4]
  by (simp add: py_get_def Entity_get_def example_entity_def)

subsection \<open>receive and emit\<close>

text \<open>
  Claim C4 as stated fails: with a tensor queued on the port \<open>in\<close>, \<open>receive\<close> does
  not return it.
\<close>

theorem receive_queued_message_counterexample:
  "receive example_input ''in'' \<noteq> Inr (receive_spec example_input ''in'')"
  by (simp add: receive_def receive_spec_def example_input_def)

text \<open>
  Claim C4, amended. For every input context and every port name, \<open>receive\<close> is a
  single call that returns at once with an empty result (\<open>None\<close>); it returns what the
  spec describes exactly when the spec's result is empty too.
\<close>

theorem receive_returns_none:
  "receive ctx name = Inr py_none \<and>
   (receive ctx name = Inr (receive_spec ctx name)) = (receive_spec ctx name = py_none)"
  by (auto simp add: receive_def)

lemma emit_spec_delivers: "port_holds (Inr (emit_spec ctx data name)) name data"
  by (simp add: port_holds_def emit_spec_def)

text \<open>
  Claim C5 as stated fails: after \<open>emit\<close> of a tensor on the port \<open>out\<close> of a context
  with empty ports, the port does not hold the tensor.
\<close>

theorem emit_delivers_counterexample:
  "\<not> port_holds (emit example_output (PyTensor 7) ''out'') ''out'' (PyTensor 7)"
  by (simp add: emit_def port_holds_def example_output_def)

text \<open>
  Claim C5, amended. For every output context, value and port name, \<open>emit\<close> returns
  normally and leaves the context as it was: nothing is handed to the port, which holds
  the value afterwards only if it held it before.
\<close>

theorem emit_leaves_context_unchanged:
  "emit ctx data name = Inr ctx \<and>
   port_holds (emit ctx data name) name data = (data \<in> set (emitted ctx name))"
  by (simp add: emit_def port_holds_def)

subsection \<open>load_extensions\<close>

text \<open>
  Claim C6. \<open>load_extensions\<close> passes the context and the marshalled names to the
  engine; it returns normally when the engine reports \<open>GXF_SUCCESS\<close>, and otherwise
  raises a value error whose message is the engine's own string for the result it
  reported.
\<close>

theorem load_extensions_reports_engine_result:
  "(GxfLoadExtensions context (load_extensions_info extension_names manifest_names base) =
      GXF_SUCCESS \<longrightarrow>
    load_extensions GxfLoadExtensions GxfResultStr context extension_names manifest_names base =
      Inr ()) \<and>
   (GxfLoadExtensions context (load_extensions_info extension_names manifest_names base) \<noteq>
      GXF_SUCCESS \<longrightarrow>
    load_extensions GxfLoadExtensions GxfResultStr context extension_names manifest_names base =
      Inl (value_error (GxfResultStr
        (GxfLoadExtensions context (load_extensions_info extension_names manifest_names base)))))"
  by (simp add: load_extensions_def Let_def)

theorem load_extensions_reports_engine_result_witness:
  "load_extensions example_GxfLoadExtensions example_GxfResultStr 1
     [''libgxf_std.so''] [] ''/opt/gxf'' = Inr () \<and>
   load_extensions example_GxfLoadExtensions example_GxfResultStr 1 [] [] [] =
     Inl (value_error ''GXF_FAILURE'')"
  using load_extensions_reports_engine_result
      [of example_GxfLoadExtensions 1 "[''libgxf_std.so'']" "[]" "''/opt/gxf''"
          example_GxfResultStr]
    load_extensions_reports_engine_result
      [of example_GxfLoadExtensions 1 "[]" "[]" "[]" example_GxfResultStr]
  by (simp add: example_GxfLoadExtensions_def example_GxfResultStr_def
      load_extensions_info_def GXF_SUCCESS_def)

subsection \<open>The registrar\<close>

lemma create_random_tid_fresh:
  "create_random_tid r draws = Some (tid, rest) \<Longrightarrow>
   tid \<noteq> default_tid \<and> \<not> collides r tid \<and> tid \<in> set draws"
  by (induction draws) (auto split: if_splits)

lemma create_random_tid_returns:
  "\<exists>t\<in>set draws. t \<noteq> default_tid \<and> \<not> collides r t \<Longrightarrow>
   \<exists>tid rest. create_random_tid r draws = Some (tid, rest)"
  by (induction draws) auto

lemma bind_type_default:
  assumes "\<exists>t\<in>set draws. t \<noteq> default_tid \<and> \<not> collides r t"
  shows "\<exists>fresh rest.
           bind_type wrapped description default_tid r draws =
             Some (Inr (\<lparr>allocated_tids = allocated_tids r @ [(fresh, kComponent)],
                          type_table = type_table r @ [(fresh, description, wrapped)]\<rparr>, rest)) \<and>
           fresh \<noteq> default_tid \<and> \<not> collides r fresh"
proof -
  from assms obtain fresh rest where draw: "create_random_tid r draws = Some (fresh, rest)"
    using create_random_tid_returns by blast
  then have "fresh \<noteq> default_tid \<and> \<not> collides r fresh"
    using create_random_tid_fresh by blast
  moreover have "bind_type wrapped description default_tid r draws =
      Some (Inr (\<lparr>allocated_tids = allocated_tids r @ [(fresh, kComponent)],
                   type_table = type_table r @ [(fresh, description, wrapped)]\<rparr>, rest))"
    using draw by (simp add: bind_type_def allocate_tid_def)
  ultimately show ?thesis by blast
qed

text \<open>
  Claim C7. The reserved type id is the pair (0, 0). A call of \<open>add_component\<close> or
  \<open>add_type\<close> whose tid is omitted or is the reserved id does not bind the reserved id:
  when the random device yields an acceptable id at all, the call succeeds, and the id
  it allocates and binds to the description is not (0, 0) and collides with no id of the
  registrar.
\<close>

theorem add_with_default_tid_generates_fresh_tid:
  assumes "tid = None \<or> tid = Some default_tid"
    and "\<exists>t\<in>set draws. t \<noteq> default_tid \<and> \<not> collides r t"
  shows "default_tid = (0, 0) \<and>
    (\<exists>fresh rest.
       py_add_component description tid r draws =
         Some (Inr (\<lparr>allocated_tids = allocated_tids r @ [(fresh, kComponent)],
                      type_table = type_table r @
                        [(fresh, case description of None \<Rightarrow> [] | Some d \<Rightarrow> d, WrappedCodelet)]\<rparr>,
                    rest)) \<and>
       fresh \<noteq> (0, 0) \<and> \<not> collides r fresh) \<and>
    (\<exists>fresh rest.
       py_add_type description tid r draws =
         Some (Inr (\<lparr>allocated_tids = allocated_tids r @ [(fresh, kComponent)],
                      type_table = type_table r @
                        [(fresh, case description of None \<Rightarrow> [] | Some d \<Rightarrow> d, WrappedMessage)]\<rparr>,
                    rest)) \<and>
       fresh \<noteq> (0, 0) \<and> \<not> collides r fresh)"
proof -
  have tid: "(case tid of None \<Rightarrow> default_tid | Some t \<Rightarrow> t) = default_tid"
    using assms(1) by auto
  have zero: "default_tid = (0, 0)" by (simp add: default_tid_def)
  have comp: "py_add_component description tid r draws =
      bind_type WrappedCodelet (case description of None \<Rightarrow> [] | Some d \<Rightarrow> d) default_tid r draws"
    by (simp only: py_add_component_def add_component_def tid)
  have type: "py_add_type description tid r draws =
      bind_type WrappedMessage (case description of None \<Rightarrow> [] | Some d \<Rightarrow> d) default_tid r draws"
    by (simp only: py_add_type_def add_type_def tid)
  from bind_type_default
    [OF assms(2), of WrappedCodelet "case description of None \<Rightarrow> [] | Some d \<Rightarrow> d"]
  have c: "\<exists>fresh rest.
       py_add_component description tid r draws =
         Some (Inr (\<lparr>allocated_tids = allocated_tids r @ [(fresh, kComponent)],
                      type_table = type_table r @
                        [(fresh, case description of None \<Rightarrow> [] | Some d \<Rightarrow> d, WrappedCodelet)]\<rparr>,
                    rest)) \<and>
       fresh \<noteq> (0, 0) \<and> \<not> collides r fresh"
    unfolding comp zero .
  from bind_type_default
    [OF assms(2), of WrappedMessage "case description of None \<Rightarrow> [] | Some d \<Rightarrow> d"]
  have t: "\<exists>fresh rest.
       py_add_type description tid r draws =
         Some (Inr (\<lparr>allocated_tids = allocated_tids r @ [(fresh, kComponent)],
                      type_table = type_table r @
                        [(fresh, case description of None \<Rightarrow> [] | Some d \<Rightarrow> d, WrappedMessage)]\<rparr>,
                    rest)) \<and>
       fresh \<noteq> (0, 0) \<and> \<not> collides r fresh"
    unfolding type zero .
  from zero c t show ?thesis by (intro conjI)
qed

theorem add_with_default_tid_generates_fresh_tid_witness:
  "(\<exists>fresh rest.
      py_add_component None None example_registrar example_draws =
        Some (Inr (\<lparr>allocated_tids = allocated_tids example_registrar @ [(fresh, kComponent)],
                     type_table = type_table example_registrar @ [(fresh, [], WrappedCodelet)]\<rparr>,
                   rest)) \<and>
      fresh \<noteq> (0, 0) \<and> \<not> collides example_registrar fresh) \<and>
   py_add_component None None example_registrar example_draws =
     Some (Inr (\<lparr>allocated_tids = [((5, 7), kExtension), ((8, 9), kComponent)],
                  type_table = [((8, 9), [], WrappedCodelet)]\<rparr>, []))"
proof -
  have omitted: "(None :: gxf_tid_t option) = None \<or> None = Some default_tid"
    by simp
  have drawn: "\<exists>t\<in>set example_draws. t \<noteq> default_tid \<and> \<not> collides example_registrar t"
    by (simp add: example_draws_def example_registrar_def default_tid_def collides_def
        is_allocated_def)
  have fresh: "\<exists>fresh rest.
      py_add_component None None example_registrar example_draws =
        Some (Inr (\<lparr>allocated_tids = allocated_tids example_registrar @ [(fresh, kComponent)],
                     type_table = type_table example_registrar @ [(fresh, [], WrappedCodelet)]\<rparr>,
                   rest)) \<and>
      fresh \<noteq> (0, 0) \<and> \<not> collides example_registrar fresh"
    using add_with_default_tid_generates_fresh_tid [OF omitted drawn, of None]
    by (simp only: option.case) blast
  have run: "py_add_component None None example_registrar example_draws =
     Some (Inr (\<lparr>allocated_tids = [((5, 7), kExtension), ((8, 9), kComponent)],
                  type_table = [((8, 9), [], WrappedCodelet)]\<rparr>, []))"
    by (simp add: py_add_component_def add_component_def bind_type_def allocate_tid_def
        example_draws_def example_registrar_def default_tid_def collides_def is_allocated_def)
  show ?thesis by (rule conjI [OF fresh run])
qed

end
